theory Spec2Isabelle
  imports Complex_Main "HOL-Library.Sublist"
begin

section \<open>The socket writer of httpstan (src/httpstan/socket\_writer.hpp)\<close>

text \<open>
  \<open>socket_writer\<close> receives the callbacks of a Stan sampling run and forwards them as
  protobuf messages over a stream socket. The class has four overloads of
  \<open>operator()\<close>, one per kind of callback; each looks at its \<open>message_prefix\<close> to find
  out which of the three writers of a run it is.

  The embedding is shallow: the object is a record, each overload is a function from the
  record to the outcome of the call and the record after it, a \<open>throw\<close> is the
  outcome \<open>Inl\<close>. Values of type \<open>double\<close> are only copied from the callback into
  the message, never computed with, so the model is parametric in their type \<open>'d\<close>.
\<close>

subsection \<open>Data\<close>

text \<open>The enum of the sample writer, lines 54 to 59, in the order of its declaration.\<close>

datatype ProcessingAdaptationState =
    BEFORE_PROCESSING_ADAPTATION
  | PROCESSING_ADAPTATION
  | FINAL_ADAPTATION_MESSAGE
  | AFTER_PROCESSING_ADAPTATION

text \<open>
  Modelled from the spec: the message types that the header \<open>callbacks_writer.pb.h\<close>
  declares (it is generated from the protobuf schema and is not part of the source). A
  \<open>WriterMessage\<close> has a topic and a sequence of features; a feature has an optional
  name and one payload, a list of byte strings or a list of doubles. \<open>KIND_NOT_SET\<close>
  is the payload of a feature that \<open>add_feature()\<close> has just created.
\<close>

datatype Topic = INITIALIZATION | SAMPLE | DIAGNOSTIC

datatype 'd Kind = KIND_NOT_SET | bytes_list "string list" | double_list "'d list"

record 'd WriterMessage_Feature =
  name :: "string option"
  kind :: "'d Kind"

record 'd WriterMessage =
  topic :: Topic
  feature :: "'d WriterMessage_Feature list"

text \<open>
  The private members of the class, lines 71 to 80, under their names without the
  underscore at the end (a name of Isabelle cannot end with one). The socket is represented by what
  has been written to it: the sequence of messages handed to \<open>send_message\<close>, oldest
  first. \<open>send_message\<close> is the only place of the class that writes to the socket, and
  one call writes one frame (the length as a varint, then the serialised message), which
  has at least the byte of its length; so the socket has received no byte during a call
  exactly when this sequence is the same before and after. The socket is taken to accept
  what it is sent: a failing \<open>send\<close> is not part of the model.
\<close>

record 'd socket_writer =
  socket :: "'d WriterMessage list"
  message_prefix :: string
  diagnostic_fields :: "string list"
  sample_fields :: "string list"
  processing_adaptation_state :: ProcessingAdaptationState

text \<open>
  What a call can end with other than a return: the \<open>std::runtime_error\<close> of a
  \<open>throw\<close>, with its message. The class throws nothing else.
\<close>

datatype error = runtime_error string

type_synonym 'd outcome = "(error + unit) \<times> 'd socket_writer"

subsection \<open>Building and sending messages\<close>

text \<open>\<open>stan::WriterMessage writer_message; writer_message.set_topic(t);\<close>\<close>

definition new_message :: "Topic \<Rightarrow> 'd WriterMessage" where
  "new_message t = \<lparr>topic = t, feature = []\<rparr>"

text \<open>
  \<open>writer_message.add_feature()\<close> appends a feature and returns a pointer to it, through
  which the caller then sets the name and the payload; the model appends the finished
  feature.
\<close>

definition add_feature :: "'d WriterMessage_Feature \<Rightarrow> 'd WriterMessage \<Rightarrow> 'd WriterMessage" where
  "add_feature f msg = msg\<lparr>feature := feature msg @ [f]\<rparr>"

text \<open>
  The iterator loops \<open>for (it = v.begin(); it != last; ++it) target.push_back(*it)\<close>
  (lines 126, 149) and the same loops with \<open>add_value(*it)\<close> (lines 136, 187): every
  element of the vector is appended to the target, front to back.
\<close>

fun append_each :: "'a list \<Rightarrow> 'a list \<Rightarrow> 'a list" where
  "append_each target [] = target"
| "append_each target (x # it) = append_each (target @ [x]) it"

text \<open>
  The index loops of lines 171 to 177 and 205 to 211: for every index \<open>i\<close> below the
  number of fields, a feature named \<open>flds[i]\<close> whose list of doubles holds
  \<open>state[i]\<close>. The loop is bounded by the number of fields alone and never looks at
  the size of \<open>state\<close>: it has no branch for a vector that is too short. At an index
  at or beyond the size of the vector the read \<open>state[i]\<close> is undefined in C++, and
  \<open>state ! i\<close> is a value about which HOL says nothing; no property below says
  anything about what is read there.
\<close>

function named_features ::
  "string list \<Rightarrow> 'd list \<Rightarrow> nat \<Rightarrow> 'd WriterMessage \<Rightarrow> 'd WriterMessage" where
  "named_features flds state i msg =
     (if i < length flds then
        named_features flds state (Suc i)
          (add_feature \<lparr>name = Some (flds ! i), kind = double_list [state ! i]\<rparr> msg)
      else msg)"
  by pat_completeness auto
termination
  by (relation "measure (\<lambda>(flds, state, i, msg). length flds - i)") auto

declare named_features.simps [simp del]

text \<open>\<open>send_message\<close>, lines 85 to 96: one frame with the message goes out.\<close>

definition send_message :: "'d WriterMessage \<Rightarrow> 'd socket_writer \<Rightarrow> 'd socket_writer" where
  "send_message msg w = w\<lparr>socket := socket w @ [msg]\<rparr>"

text \<open>
  The constructor, lines 106 to 110, once the connection stands: the prefix is stored,
  both headers are empty, and the adaptation state has its initialiser of line 80.
\<close>

definition socket_writer_new :: "string \<Rightarrow> 'd socket_writer" where
  "socket_writer_new p =
     \<lparr>socket = [], message_prefix = p, diagnostic_fields = [],
      sample_fields = [],
      processing_adaptation_state = BEFORE_PROCESSING_ADAPTATION\<rparr>"

subsection \<open>\<open>std::string::rfind\<close>\<close>

text \<open>
  \<open>s.rfind(t, pos)\<close> of the C++ standard library: the greatest position not after
  \<open>pos\<close> at which \<open>t\<close> occurs in \<open>s\<close>, or \<open>npos\<close> (here \<open>None\<close>). The search starts at
  the smaller of \<open>pos\<close> and \<open>size(s) - size(t)\<close> and walks down to position 0.
\<close>

fun rfind_down :: "string \<Rightarrow> string \<Rightarrow> nat \<Rightarrow> nat option" where
  "rfind_down s t 0 = (if take (length t) s = t then Some 0 else None)"
| "rfind_down s t (Suc p) =
     (if take (length t) (drop (Suc p) s) = t then Some (Suc p) else rfind_down s t p)"

definition rfind :: "string \<Rightarrow> string \<Rightarrow> nat \<Rightarrow> nat option" where
  "rfind s t pos =
     (if length t \<le> length s then rfind_down s t (min (length s - length t) pos) else None)"

subsection \<open>The four overloads of \<open>operator()\<close>\<close>

text \<open>\<open>operator()(const std::vector<std::string> &names)\<close>, lines 122 to 154.\<close>

definition op_names :: "string list \<Rightarrow> 'd socket_writer \<Rightarrow> 'd outcome" where
  "op_names names w =
     (if message_prefix w = ''diagnostic_writer:'' then
        (if diagnostic_fields w = [] then
           (Inr (), w\<lparr>diagnostic_fields := append_each (diagnostic_fields w) names\<rparr>)
         else
           (Inr (),
            send_message
              (add_feature \<lparr>name = None, kind = bytes_list (append_each [] names)\<rparr>
                 (new_message DIAGNOSTIC)) w))
      else if message_prefix w = ''init_writer:'' then
        (Inl (runtime_error ''Unexpected string vector for init writer.''), w)
      else if message_prefix w = ''sample_writer:'' then
        (if sample_fields w \<noteq> [] then
           (Inl (runtime_error
              ''Unexpected string vector in sample writer after column header.''), w)
         else (Inr (), w\<lparr>sample_fields := append_each (sample_fields w) names\<rparr>))
      else (Inr (), w))"

text \<open>\<open>operator()(const std::vector<double> &state)\<close>, lines 161 to 216.\<close>

definition op_state :: "'d list \<Rightarrow> 'd socket_writer \<Rightarrow> 'd outcome" where
  "op_state state w =
     (if message_prefix w = ''diagnostic_writer:'' then
        (if diagnostic_fields w = [] then
           (Inl (runtime_error ''diagnostic fields must be set before receiving values''), w)
         else
           (Inr (),
            send_message
              (named_features (diagnostic_fields w) state 0 (new_message DIAGNOSTIC)) w))
      else if message_prefix w = ''init_writer:'' then
        (Inr (),
         send_message
           (add_feature \<lparr>name = None, kind = double_list (append_each [] state)\<rparr>
              (new_message INITIALIZATION)) w)
      else if message_prefix w = ''sample_writer:'' then
        (if sample_fields w = [] then
           (Inl (runtime_error
              ''Sample fields should be populated before sample writer writes a vector of doubles.''), w)
         else if processing_adaptation_state w = PROCESSING_ADAPTATION
               \<or> processing_adaptation_state w = FINAL_ADAPTATION_MESSAGE then
           (Inl (runtime_error
              ''Adaptation should have completed before sample writer writes a vector of doubles.''), w)
         else
           (Inr (),
            send_message (named_features (sample_fields w) state 0 (new_message SAMPLE)) w))
      else (Inr (), w))"

text \<open>\<open>operator()()\<close>, lines 221 to 224: it returns at once, whatever the prefix.\<close>

definition op_empty :: "'d socket_writer \<Rightarrow> 'd outcome" where
  "op_empty w = (Inr (), w)"

text \<open>
  The state machine of the sample writer, lines 248 to 262, as the function from the
  state before the message to the state after it.
\<close>

definition adaptation_step :: "ProcessingAdaptationState \<Rightarrow> string \<Rightarrow> ProcessingAdaptationState" where
  "adaptation_step s message =
     (if s = BEFORE_PROCESSING_ADAPTATION then
        (if rfind message ''Adaptation terminated'' 0 = Some 0 then PROCESSING_ADAPTATION
         else s)
      else if s = PROCESSING_ADAPTATION then
        (if rfind message ''Diagonal elements of inverse mass matrix'' 0 = Some 0
         then FINAL_ADAPTATION_MESSAGE else s)
      else if s = FINAL_ADAPTATION_MESSAGE then AFTER_PROCESSING_ADAPTATION
      else s)"

text \<open>\<open>operator()(const std::string &message)\<close>, lines 231 to 275.\<close>

definition op_message :: "string \<Rightarrow> 'd socket_writer \<Rightarrow> 'd outcome" where
  "op_message message w =
     (if message_prefix w = ''diagnostic_writer:'' then
        (Inr (),
         send_message
           (add_feature \<lparr>name = None, kind = bytes_list [message]\<rparr> (new_message DIAGNOSTIC)) w)
      else if message_prefix w = ''init_writer:'' then
        (Inl (runtime_error ''Unexpected string vector for init writer.''), w)
      else if message_prefix w = ''sample_writer:'' then
        (Inr (),
         send_message
           (add_feature \<lparr>name = None, kind = bytes_list [message]\<rparr> (new_message SAMPLE))
           (w\<lparr>processing_adaptation_state :=
                adaptation_step (processing_adaptation_state w) message\<rparr>))
      else (Inr (), w))"

subsection \<open>Events and runs\<close>

text \<open>
  The four callbacks as one type of events, and the overload that C++ selects for each.
\<close>

datatype 'd event =
    name_vector "string list"
  | value_vector "'d list"
  | text_line string
  | empty_signal

fun dispatch :: "'d event \<Rightarrow> 'd socket_writer \<Rightarrow> 'd outcome" where
  "dispatch (name_vector names) w = op_names names w"
| "dispatch (value_vector state) w = op_state state w"
| "dispatch (text_line message) w = op_message message w"
| "dispatch empty_signal w = op_empty w"

text \<open>
  A run of events on one writer. An exception leaves the run: the events after it are
  not delivered.
\<close>

fun run :: "'d event list \<Rightarrow> 'd socket_writer \<Rightarrow> 'd outcome" where
  "run [] w = (Inr (), w)"
| "run (e # es) w =
     (case dispatch e w of
        (Inl err, w') \<Rightarrow> (Inl err, w')
      | (Inr u, w') \<Rightarrow> run es w')"

fun is_name_vector :: "'d event \<Rightarrow> bool" where
  "is_name_vector (name_vector names) = True"
| "is_name_vector e = False"

text \<open>
  The adaptation states a writer goes through when it is given text lines one after the
  other: the state before the first line, then the state after each line.
\<close>

fun adaptation_trace :: "string list \<Rightarrow> 'd socket_writer \<Rightarrow> ProcessingAdaptationState list" where
  "adaptation_trace [] w = [processing_adaptation_state w]"
| "adaptation_trace (m # ms) w =
     processing_adaptation_state w #
       (case op_message m w of
          (Inl err, w') \<Rightarrow> []
        | (Inr u, w') \<Rightarrow> adaptation_trace ms w')"

text \<open>The position of a state in the declaration of the enum.\<close>

fun rank :: "ProcessingAdaptationState \<Rightarrow> nat" where
  "rank BEFORE_PROCESSING_ADAPTATION = 0"
| "rank PROCESSING_ADAPTATION = 1"
| "rank FINAL_ADAPTATION_MESSAGE = 2"
| "rank AFTER_PROCESSING_ADAPTATION = 3"

text \<open>
  The transition table of the specification, row by row; \<open>prefix p m\<close> says that the
  line \<open>m\<close> begins with \<open>p\<close>, character for character from position 0.
\<close>

fun spec_table :: "ProcessingAdaptationState \<Rightarrow> string \<Rightarrow> ProcessingAdaptationState" where
  "spec_table BEFORE_PROCESSING_ADAPTATION m =
     (if prefix ''Adaptation terminated'' m then PROCESSING_ADAPTATION
      else BEFORE_PROCESSING_ADAPTATION)"
| "spec_table PROCESSING_ADAPTATION m =
     (if prefix ''Diagonal elements of inverse mass matrix'' m then FINAL_ADAPTATION_MESSAGE
      else PROCESSING_ADAPTATION)"
| "spec_table FINAL_ADAPTATION_MESSAGE m = AFTER_PROCESSING_ADAPTATION"
| "spec_table AFTER_PROCESSING_ADAPTATION m = AFTER_PROCESSING_ADAPTATION"

section \<open>Properties\<close>

subsection \<open>Helper lemmas\<close>

lemma append_each_eq: "append_each target xs = target @ xs"
  by (induction xs arbitrary: target) simp_all

lemma rfind_0_prefix: "rfind s t 0 = Some 0 \<longleftrightarrow> prefix t s"
proof
  assume "rfind s t 0 = Some 0"
  then have "take (length t) s = t"
    by (simp add: rfind_def split: if_splits)
  then have "s = t @ drop (length t) s"
    by (metis append_take_drop_id)
  then show "prefix t s"
    by (metis prefixI)
next
  assume "prefix t s"
  then obtain r where "s = t @ r"
    by (auto simp: prefix_def)
  then show "rfind s t 0 = Some 0"
    by (simp add: rfind_def)
qed

lemma named_features_in_range:
  "named_features flds state i msg =
     msg\<lparr>feature := feature msg @
            map (\<lambda>j. \<lparr>name = Some (flds ! j), kind = double_list [state ! j]\<rparr>)
              [i..<length flds]\<rparr>"
proof (induction flds state i msg rule: named_features.induct)
  case (1 flds state i msg)
  show ?case
  proof (cases "i < length flds")
    case True
    have "named_features flds state i msg =
          named_features flds state (Suc i)
            (add_feature \<lparr>name = Some (flds ! i), kind = double_list [state ! i]\<rparr> msg)"
      using True by (simp add: named_features.simps [of flds state i])
    also note "1.IH" [OF True]
    finally show ?thesis
      using True by (simp add: add_feature_def upt_conv_Cons)
  next
    case False
    then show ?thesis
      by (simp add: named_features.simps [of flds state i])
  qed
qed

lemma adaptation_step_table: "adaptation_step s m = spec_table s m"
  by (cases s) (simp_all add: adaptation_step_def rfind_0_prefix)

lemma op_names_diagnostic:
  "message_prefix w = ''diagnostic_writer:'' \<Longrightarrow>
   op_names names w =
     (if diagnostic_fields w = [] then (Inr (), w\<lparr>diagnostic_fields := names\<rparr>)
      else (Inr (), w\<lparr>socket := socket w @
              [\<lparr>topic = DIAGNOSTIC, feature = [\<lparr>name = None, kind = bytes_list names\<rparr>]\<rparr>]\<rparr>))"
  by (simp add: op_names_def append_each_eq send_message_def add_feature_def new_message_def)

lemma op_names_init:
  "message_prefix w = ''init_writer:'' \<Longrightarrow>
   op_names names w = (Inl (runtime_error ''Unexpected string vector for init writer.''), w)"
  by (simp add: op_names_def)

lemma op_names_sample:
  "message_prefix w = ''sample_writer:'' \<Longrightarrow>
   op_names names w =
     (if sample_fields w \<noteq> [] then
        (Inl (runtime_error ''Unexpected string vector in sample writer after column header.''), w)
      else (Inr (), w\<lparr>sample_fields := names\<rparr>))"
  by (simp add: op_names_def append_each_eq)

lemma op_names_other:
  "message_prefix w \<noteq> ''diagnostic_writer:'' \<Longrightarrow> message_prefix w \<noteq> ''init_writer:'' \<Longrightarrow>
   message_prefix w \<noteq> ''sample_writer:'' \<Longrightarrow> op_names names w = (Inr (), w)"
  by (simp add: op_names_def)

lemma op_message_diagnostic:
  "message_prefix w = ''diagnostic_writer:'' \<Longrightarrow>
   op_message m w =
     (Inr (), w\<lparr>socket := socket w @
        [\<lparr>topic = DIAGNOSTIC, feature = [\<lparr>name = None, kind = bytes_list [m]\<rparr>]\<rparr>]\<rparr>)"
  by (simp add: op_message_def send_message_def add_feature_def new_message_def)

lemma op_message_init:
  "message_prefix w = ''init_writer:'' \<Longrightarrow>
   op_message m w = (Inl (runtime_error ''Unexpected string vector for init writer.''), w)"
  by (simp add: op_message_def)

lemma op_message_sample:
  "message_prefix w = ''sample_writer:'' \<Longrightarrow>
   op_message m w =
     (Inr (), w\<lparr>processing_adaptation_state := spec_table (processing_adaptation_state w) m,
               socket := socket w @
        [\<lparr>topic = SAMPLE, feature = [\<lparr>name = None, kind = bytes_list [m]\<rparr>]\<rparr>]\<rparr>)"
  by (simp add: op_message_def send_message_def add_feature_def new_message_def
      adaptation_step_table)

lemma op_message_other:
  "message_prefix w \<noteq> ''diagnostic_writer:'' \<Longrightarrow> message_prefix w \<noteq> ''init_writer:'' \<Longrightarrow>
   message_prefix w \<noteq> ''sample_writer:'' \<Longrightarrow> op_message m w = (Inr (), w)"
  by (simp add: op_message_def)

lemma op_state_diagnostic:
  "message_prefix w = ''diagnostic_writer:'' \<Longrightarrow>
   op_state state w =
     (if diagnostic_fields w = [] then
        (Inl (runtime_error ''diagnostic fields must be set before receiving values''), w)
      else
        (Inr (), w\<lparr>socket := socket w @
           [named_features (diagnostic_fields w) state 0 (new_message DIAGNOSTIC)]\<rparr>))"
  by (simp add: op_state_def send_message_def)

lemma op_state_init:
  "message_prefix w = ''init_writer:'' \<Longrightarrow>
   op_state state w =
     (Inr (), w\<lparr>socket := socket w @
        [\<lparr>topic = INITIALIZATION, feature = [\<lparr>name = None, kind = double_list state\<rparr>]\<rparr>]\<rparr>)"
  by (simp add: op_state_def send_message_def add_feature_def new_message_def append_each_eq)

lemma op_state_sample:
  "message_prefix w = ''sample_writer:'' \<Longrightarrow>
   op_state state w =
     (if sample_fields w = [] then
        (Inl (runtime_error
           ''Sample fields should be populated before sample writer writes a vector of doubles.''), w)
      else if processing_adaptation_state w = PROCESSING_ADAPTATION
            \<or> processing_adaptation_state w = FINAL_ADAPTATION_MESSAGE then
        (Inl (runtime_error
           ''Adaptation should have completed before sample writer writes a vector of doubles.''), w)
      else
        (Inr (), w\<lparr>socket := socket w @
           [named_features (sample_fields w) state 0 (new_message SAMPLE)]\<rparr>))"
  by (simp add: op_state_def send_message_def)

lemma op_state_other:
  "message_prefix w \<noteq> ''diagnostic_writer:'' \<Longrightarrow> message_prefix w \<noteq> ''init_writer:'' \<Longrightarrow>
   message_prefix w \<noteq> ''sample_writer:'' \<Longrightarrow> op_state state w = (Inr (), w)"
  by (simp add: op_state_def)

lemma named_features_message:
  "named_features flds state 0 (new_message t) =
     \<lparr>topic = t, feature =
       map (\<lambda>j. \<lparr>name = Some (flds ! j), kind = double_list [state ! j]\<rparr>) [0..<length flds]\<rparr>"
  by (simp add: named_features_in_range new_message_def)

lemma adaptation_trace_sample:
  "message_prefix w = ''sample_writer:'' \<Longrightarrow>
   adaptation_trace (m # ms) w =
     processing_adaptation_state w #
       adaptation_trace ms
         (w\<lparr>processing_adaptation_state := spec_table (processing_adaptation_state w) m,
            socket := socket w @
              [\<lparr>topic = SAMPLE, feature = [\<lparr>name = None, kind = bytes_list [m]\<rparr>]\<rparr>]\<rparr>)"
  by (simp add: op_message_sample)

lemma adaptation_trace_hd:
  "\<exists>t. adaptation_trace ms w = processing_adaptation_state w # t"
  by (cases ms) simp_all

lemma rank_spec_table: "rank s \<le> rank (spec_table s m)"
  by (cases s) simp_all

lemma adaptation_trace_sorted:
  "message_prefix w = ''sample_writer:'' \<Longrightarrow> sorted (map rank (adaptation_trace ms w))"
proof (induction ms arbitrary: w)
  case Nil
  show ?case by simp
next
  case (Cons m ms)
  let ?w' = "w\<lparr>processing_adaptation_state := spec_table (processing_adaptation_state w) m,
            socket := socket w @
              [\<lparr>topic = SAMPLE, feature = [\<lparr>name = None, kind = bytes_list [m]\<rparr>]\<rparr>]\<rparr>"
  have pre: "message_prefix ?w' = ''sample_writer:''"
    using Cons.prems by simp
  obtain t where t: "adaptation_trace ms ?w' = spec_table (processing_adaptation_state w) m # t"
    using adaptation_trace_hd [of ms ?w'] by auto
  have "sorted (map rank (adaptation_trace ms ?w'))"
    using Cons.IH [OF pre] .
  then have "sorted (map rank (processing_adaptation_state w # adaptation_trace ms ?w'))"
    using rank_spec_table [of "processing_adaptation_state w" m] by (auto simp: t)
  then show ?case
    using Cons.prems by (simp only: adaptation_trace_sample)
qed

lemma adaptation_trace_length:
  "message_prefix w = ''sample_writer:'' \<Longrightarrow> length (adaptation_trace ms w) = Suc (length ms)"
proof (induction ms arbitrary: w)
  case Nil
  show ?case by simp
next
  case (Cons m ms)
  then show ?case
    by (simp add: op_message_sample)
qed

lemma adaptation_trace_step:
  "message_prefix w = ''sample_writer:'' \<Longrightarrow> i < length ms \<Longrightarrow>
   adaptation_trace ms w ! Suc i = spec_table (adaptation_trace ms w ! i) (ms ! i)"
proof (induction ms arbitrary: w i)
  case Nil
  then show ?case by simp
next
  case (Cons m ms)
  let ?w' = "w\<lparr>processing_adaptation_state := spec_table (processing_adaptation_state w) m,
            socket := socket w @
              [\<lparr>topic = SAMPLE, feature = [\<lparr>name = None, kind = bytes_list [m]\<rparr>]\<rparr>]\<rparr>"
  have pre: "message_prefix ?w' = ''sample_writer:''"
    using Cons.prems by simp
  have unfold: "adaptation_trace (m # ms) w = processing_adaptation_state w # adaptation_trace ms ?w'"
    using Cons.prems(1) by (rule adaptation_trace_sample)
  show ?case
  proof (cases i)
    case 0
    obtain t where "adaptation_trace ms ?w' = spec_table (processing_adaptation_state w) m # t"
      using adaptation_trace_hd [of ms ?w'] by auto
    with 0 unfold show ?thesis by simp
  next
    case (Suc j)
    with Cons.prems have "j < length ms" by simp
    from Cons.IH [OF pre this] Suc unfold show ?thesis by simp
  qed
qed

lemma prefix_cases:
  obtains (diagnostic) "message_prefix w = ''diagnostic_writer:''"
  | (init) "message_prefix w = ''init_writer:''"
  | (sample) "message_prefix w = ''sample_writer:''"
  | (other) "message_prefix w \<noteq> ''diagnostic_writer:''" "message_prefix w \<noteq> ''init_writer:''"
      "message_prefix w \<noteq> ''sample_writer:''"
  by blast

lemma op_state_keeps:
  assumes "op_state state w = (r, w')"
  shows "message_prefix w' = message_prefix w \<and> diagnostic_fields w' = diagnostic_fields w
    \<and> sample_fields w' = sample_fields w"
proof (cases w rule: prefix_cases)
  case diagnostic
  with assms show ?thesis
    by (auto simp: op_state_diagnostic split: if_splits)
next
  case init
  with assms show ?thesis
    by (auto simp: op_state_init)
next
  case sample
  with assms show ?thesis
    by (auto simp: op_state_sample split: if_splits)
next
  case other
  with assms show ?thesis
    by (auto simp: op_state_other)
qed

lemma op_message_keeps:
  assumes "op_message m w = (r, w')"
  shows "message_prefix w' = message_prefix w \<and> diagnostic_fields w' = diagnostic_fields w
    \<and> sample_fields w' = sample_fields w"
proof (cases w rule: prefix_cases)
  case diagnostic
  with assms show ?thesis
    by (auto simp: op_message_diagnostic)
next
  case init
  with assms show ?thesis
    by (auto simp: op_message_init)
next
  case sample
  with assms show ?thesis
    by (auto simp: op_message_sample)
next
  case other
  with assms show ?thesis
    by (auto simp: op_message_other)
qed

lemma op_names_keeps:
  assumes "op_names names w = (r, w')"
  shows "message_prefix w' = message_prefix w
    \<and> (diagnostic_fields w \<noteq> [] \<longrightarrow> diagnostic_fields w' = diagnostic_fields w)
    \<and> (sample_fields w \<noteq> [] \<longrightarrow> sample_fields w' = sample_fields w)"
proof (cases w rule: prefix_cases)
  case diagnostic
  with assms show ?thesis
    by (auto simp: op_names_diagnostic split: if_splits)
next
  case init
  with assms show ?thesis
    by (auto simp: op_names_init)
next
  case sample
  with assms show ?thesis
    by (auto simp: op_names_sample split: if_splits)
next
  case other
  with assms show ?thesis
    by (auto simp: op_names_other)
qed

lemma dispatch_prefix: "dispatch e w = (r, w') \<Longrightarrow> message_prefix w' = message_prefix w"
  by (cases e) (auto simp: op_empty_def dest: op_names_keeps op_state_keeps op_message_keeps)

lemma dispatch_fields_no_names:
  "\<not> is_name_vector e \<Longrightarrow> dispatch e w = (r, w') \<Longrightarrow>
   diagnostic_fields w' = diagnostic_fields w \<and> sample_fields w' = sample_fields w"
  by (cases e) (auto simp: op_empty_def dest: op_state_keeps op_message_keeps)

lemma dispatch_sample_fields_kept:
  "sample_fields w \<noteq> [] \<Longrightarrow> dispatch e w = (r, w') \<Longrightarrow> sample_fields w' = sample_fields w"
  by (cases e) (auto simp: op_empty_def dest: op_names_keeps op_state_keeps op_message_keeps)

lemma dispatch_diagnostic_fields_kept:
  "diagnostic_fields w \<noteq> [] \<Longrightarrow> dispatch e w = (r, w') \<Longrightarrow>
   diagnostic_fields w' = diagnostic_fields w"
  by (cases e) (auto simp: op_empty_def dest: op_names_keeps op_state_keeps op_message_keeps)

lemma run_Cons_Inl: "dispatch e w = (Inl err, w1) \<Longrightarrow> run (e # es) w = (Inl err, w1)"
  by simp

lemma run_Cons_Inr: "dispatch e w = (Inr u, w1) \<Longrightarrow> run (e # es) w = run es w1"
  by simp

lemma run_prefix: "run es w = (r, w') \<Longrightarrow> message_prefix w' = message_prefix w"
proof (induction es arbitrary: w)
  case Nil
  then show ?case by simp
next
  case (Cons e es)
  obtain r1 w1 where d: "dispatch e w = (r1, w1)"
    by (cases "dispatch e w")
  then have p1: "message_prefix w1 = message_prefix w"
    by (rule dispatch_prefix)
  show ?case
  proof (cases r1)
    case (Inl err)
    with d Cons.prems have "w' = w1"
      by (simp only: run_Cons_Inl prod.inject)
    with p1 show ?thesis by simp
  next
    case (Inr u)
    with d Cons.prems have "run es w1 = (r, w')"
      by (simp only: run_Cons_Inr)
    then have "message_prefix w' = message_prefix w1"
      by (rule Cons.IH)
    with p1 show ?thesis by simp
  qed
qed

lemma run_fields_no_names:
  "\<forall>e \<in> set es. \<not> is_name_vector e \<Longrightarrow> run es w = (r, w') \<Longrightarrow>
   diagnostic_fields w' = diagnostic_fields w \<and> sample_fields w' = sample_fields w"
proof (induction es arbitrary: w)
  case Nil
  then show ?case by simp
next
  case (Cons e es)
  from Cons.prems(1) have e: "\<not> is_name_vector e" and es: "\<forall>e \<in> set es. \<not> is_name_vector e"
    by simp_all
  obtain r1 w1 where d: "dispatch e w = (r1, w1)"
    by (cases "dispatch e w")
  with e have f1: "diagnostic_fields w1 = diagnostic_fields w \<and> sample_fields w1 = sample_fields w"
    by (rule dispatch_fields_no_names)
  show ?case
  proof (cases r1)
    case (Inl err)
    with d Cons.prems(2) have "w' = w1"
      by (simp only: run_Cons_Inl prod.inject)
    with f1 show ?thesis by simp
  next
    case (Inr u)
    with d Cons.prems(2) have "run es w1 = (r, w')"
      by (simp only: run_Cons_Inr)
    with es have "diagnostic_fields w' = diagnostic_fields w1 \<and> sample_fields w' = sample_fields w1"
      by (rule Cons.IH)
    with f1 show ?thesis by simp
  qed
qed

lemma run_sample_fields_kept:
  "sample_fields w \<noteq> [] \<Longrightarrow> run es w = (r, w') \<Longrightarrow> sample_fields w' = sample_fields w"
proof (induction es arbitrary: w)
  case Nil
  then show ?case by simp
next
  case (Cons e es)
  obtain r1 w1 where d: "dispatch e w = (r1, w1)"
    by (cases "dispatch e w")
  with Cons.prems(1) have f1: "sample_fields w1 = sample_fields w"
    by (rule dispatch_sample_fields_kept)
  show ?case
  proof (cases r1)
    case (Inl err)
    with d Cons.prems(2) have "w' = w1"
      by (simp only: run_Cons_Inl prod.inject)
    with f1 show ?thesis by simp
  next
    case (Inr u)
    with d Cons.prems(2) have "run es w1 = (r, w')"
      by (simp only: run_Cons_Inr)
    moreover from f1 Cons.prems(1) have "sample_fields w1 \<noteq> []"
      by simp
    ultimately have "sample_fields w' = sample_fields w1"
      using Cons.IH by blast
    with f1 show ?thesis by simp
  qed
qed

lemma run_diagnostic_fields_kept:
  "diagnostic_fields w \<noteq> [] \<Longrightarrow> run es w = (r, w') \<Longrightarrow>
   diagnostic_fields w' = diagnostic_fields w"
proof (induction es arbitrary: w)
  case Nil
  then show ?case by simp
next
  case (Cons e es)
  obtain r1 w1 where d: "dispatch e w = (r1, w1)"
    by (cases "dispatch e w")
  with Cons.prems(1) have f1: "diagnostic_fields w1 = diagnostic_fields w"
    by (rule dispatch_diagnostic_fields_kept)
  show ?case
  proof (cases r1)
    case (Inl err)
    with d Cons.prems(2) have "w' = w1"
      by (simp only: run_Cons_Inl prod.inject)
    with f1 show ?thesis by simp
  next
    case (Inr u)
    with d Cons.prems(2) have "run es w1 = (r, w')"
      by (simp only: run_Cons_Inr)
    moreover from f1 Cons.prems(1) have "diagnostic_fields w1 \<noteq> []"
      by simp
    ultimately have "diagnostic_fields w' = diagnostic_fields w1"
      using Cons.IH by blast
    with f1 show ?thesis by simp
  qed
qed

lemma run_new_no_names:
  assumes "run pre (socket_writer_new p) = (r, w1)" and "\<forall>e \<in> set pre. \<not> is_name_vector e"
  shows "message_prefix w1 = p" and "diagnostic_fields w1 = []" and "sample_fields w1 = []"
  using run_prefix [OF assms(1)] run_fields_no_names [OF assms(2) assms(1)]
  by (simp_all add: socket_writer_new_def)

lemma op_names_handled:
  assumes "message_prefix w = ''diagnostic_writer:'' \<or> message_prefix w = ''init_writer:''
           \<or> message_prefix w = ''sample_writer:''"
  shows "(\<exists>err. op_names names w = (Inl err, w))
       \<or> (\<exists>msg. op_names names w = (Inr (), w\<lparr>socket := socket w @ [msg]\<rparr>))
       \<or> (message_prefix w = ''diagnostic_writer:'' \<and> diagnostic_fields w = []
            \<and> op_names names w = (Inr (), w\<lparr>diagnostic_fields := names\<rparr>))
       \<or> (message_prefix w = ''sample_writer:'' \<and> sample_fields w = []
            \<and> op_names names w = (Inr (), w\<lparr>sample_fields := names\<rparr>))"
proof (cases w rule: prefix_cases)
  case diagnostic
  then show ?thesis by (auto simp: op_names_diagnostic)
next
  case init
  then show ?thesis by (simp add: op_names_init)
next
  case sample
  then show ?thesis by (simp add: op_names_sample)
next
  case other
  with assms show ?thesis by simp
qed

lemma op_state_handled:
  assumes "message_prefix w = ''diagnostic_writer:'' \<or> message_prefix w = ''init_writer:''
           \<or> message_prefix w = ''sample_writer:''"
  shows "(\<exists>err. op_state state w = (Inl err, w))
       \<or> (\<exists>msg. op_state state w = (Inr (), w\<lparr>socket := socket w @ [msg]\<rparr>))"
proof (cases w rule: prefix_cases)
  case diagnostic
  then show ?thesis by (auto simp: op_state_diagnostic)
next
  case init
  then show ?thesis by (auto simp: op_state_init)
next
  case sample
  then show ?thesis by (auto simp: op_state_sample)
next
  case other
  with assms show ?thesis by simp
qed

lemma op_message_handled:
  assumes "message_prefix w = ''diagnostic_writer:'' \<or> message_prefix w = ''init_writer:''
           \<or> message_prefix w = ''sample_writer:''"
  shows "(\<exists>err. op_message m w = (Inl err, w))
       \<or> (\<exists>msg. fst (op_message m w) = Inr ()
             \<and> socket (snd (op_message m w)) = socket w @ [msg])"
proof (cases w rule: prefix_cases)
  case diagnostic
  then show ?thesis by (simp add: op_message_diagnostic)
next
  case init
  then show ?thesis by (simp add: op_message_init)
next
  case sample
  then show ?thesis by (simp add: op_message_sample)
next
  case other
  with assms show ?thesis by simp
qed

subsection \<open>The adaptation state machine\<close>

text \<open>
  C1. On a sample writer the adaptation state starts at
  \<open>BEFORE_PROCESSING_ADAPTATION\<close>, and a text line \<open>m\<close> takes it to the state that the
  transition table of the specification gives: from \<open>BEFORE_PROCESSING_ADAPTATION\<close> to
  \<open>PROCESSING_ADAPTATION\<close> exactly when \<open>m\<close> begins with \<open>Adaptation terminated\<close>,
  from there to \<open>FINAL_ADAPTATION_MESSAGE\<close> exactly when \<open>m\<close> begins with
  \<open>Diagonal elements of inverse mass matrix\<close>, from there to
  \<open>AFTER_PROCESSING_ADAPTATION\<close> on any line, where it stays. Hence the states that any
  list of text lines induces (one more than there are lines, each the table's successor of
  the one before) never go down in the order of the enum.
\<close>

theorem adaptation_machine_follows_table:
  fixes w :: "'d socket_writer"
  assumes "message_prefix w = ''sample_writer:''"
  shows "processing_adaptation_state (socket_writer_new ''sample_writer:'' :: 'd socket_writer)
           = BEFORE_PROCESSING_ADAPTATION
       \<and> processing_adaptation_state (snd (op_message m w))
           = spec_table (processing_adaptation_state w) m
       \<and> length (adaptation_trace ms w) = Suc (length ms)
       \<and> (\<forall>i < length ms.
            adaptation_trace ms w ! Suc i = spec_table (adaptation_trace ms w ! i) (ms ! i))
       \<and> sorted (map rank (adaptation_trace ms w))"
  using assms
  by (simp add: socket_writer_new_def op_message_sample adaptation_trace_length
      adaptation_trace_step adaptation_trace_sorted)

text \<open>
  The theorem at the lines of an adaptation, from a new sample writer, and at a line that
  differs from the first prefix in the case of one letter.
\<close>

theorem adaptation_machine_follows_table_witness:
  "message_prefix (socket_writer_new ''sample_writer:'' :: real socket_writer) = ''sample_writer:''
   \<and> processing_adaptation_state
       (snd (op_message ''Adaptation terminated''
          (socket_writer_new ''sample_writer:'' :: real socket_writer)))
       = PROCESSING_ADAPTATION
   \<and> processing_adaptation_state
       (snd (op_message ''adaptation terminated''
          (socket_writer_new ''sample_writer:'' :: real socket_writer)))
       = BEFORE_PROCESSING_ADAPTATION
   \<and> adaptation_trace
       [''Adaptation terminated'', ''Step size = 0.8'',
        ''Diagonal elements of inverse mass matrix:'', ''0.961989'', ''Adaptation terminated'']
       (socket_writer_new ''sample_writer:'' :: real socket_writer)
       = [BEFORE_PROCESSING_ADAPTATION, PROCESSING_ADAPTATION, PROCESSING_ADAPTATION,
          FINAL_ADAPTATION_MESSAGE, AFTER_PROCESSING_ADAPTATION, AFTER_PROCESSING_ADAPTATION]
   \<and> sorted (map rank (adaptation_trace
       [''Adaptation terminated'', ''Step size = 0.8'',
        ''Diagonal elements of inverse mass matrix:'', ''0.961989'', ''Adaptation terminated'']
       (socket_writer_new ''sample_writer:'' :: real socket_writer)))"
  using
    adaptation_machine_follows_table
      [of "socket_writer_new ''sample_writer:'' :: real socket_writer" "''Adaptation terminated''"
         "[''Adaptation terminated'', ''Step size = 0.8'',
          ''Diagonal elements of inverse mass matrix:'', ''0.961989'', ''Adaptation terminated'']"]
    adaptation_machine_follows_table
      [of "socket_writer_new ''sample_writer:'' :: real socket_writer" "''adaptation terminated''"
         "[]"]
  by (simp add: socket_writer_new_def op_message_sample)

subsection \<open>Vectors of doubles\<close>

text \<open>
  C2. A sample writer that has its header and is in the state
  \<open>PROCESSING_ADAPTATION\<close> or \<open>FINAL_ADAPTATION_MESSAGE\<close> answers a vector of doubles
  with a \<open>runtime_error\<close>; nothing goes to the socket, and the header and the
  adaptation state are as before (the whole writer is).
\<close>

theorem sample_values_during_adaptation_rejected:
  assumes "message_prefix w = ''sample_writer:''"
    and "sample_fields w \<noteq> []"
    and "processing_adaptation_state w = PROCESSING_ADAPTATION
         \<or> processing_adaptation_state w = FINAL_ADAPTATION_MESSAGE"
  shows "op_state state w =
     (Inl (runtime_error
        ''Adaptation should have completed before sample writer writes a vector of doubles.''), w)"
  using assms by (auto simp: op_state_sample)

text \<open>The theorem at a draw that arrives right after \<open>Adaptation terminated\<close>.\<close>

theorem sample_values_during_adaptation_rejected_witness:
  "message_prefix \<lparr>socket = [], message_prefix = ''sample_writer:'', diagnostic_fields = [],
      sample_fields = [''lp__'', ''y''],
      processing_adaptation_state = PROCESSING_ADAPTATION\<rparr> = ''sample_writer:''
   \<and> sample_fields \<lparr>socket = [], message_prefix = ''sample_writer:'', diagnostic_fields = [],
      sample_fields = [''lp__'', ''y''],
      processing_adaptation_state = PROCESSING_ADAPTATION\<rparr> \<noteq> []
   \<and> op_state [1, 2 :: real]
       \<lparr>socket = [], message_prefix = ''sample_writer:'', diagnostic_fields = [],
        sample_fields = [''lp__'', ''y''],
        processing_adaptation_state = PROCESSING_ADAPTATION\<rparr> =
     (Inl (runtime_error
        ''Adaptation should have completed before sample writer writes a vector of doubles.''),
      \<lparr>socket = [], message_prefix = ''sample_writer:'', diagnostic_fields = [],
        sample_fields = [''lp__'', ''y''],
        processing_adaptation_state = PROCESSING_ADAPTATION\<rparr>)"
  using sample_values_during_adaptation_rejected
    [of "\<lparr>socket = [], message_prefix = ''sample_writer:'', diagnostic_fields = [],
        sample_fields = [''lp__'', ''y''],
        processing_adaptation_state = PROCESSING_ADAPTATION\<rparr>" "[1, 2 :: real]"]
  by simp

text \<open>
  C3. A vector of doubles on a diagnostic or a sample writer whose header is not empty and
  has as many names as the vector has values (and, on the sample writer, outside the
  states \<open>PROCESSING_ADAPTATION\<close> and \<open>FINAL_ADAPTATION_MESSAGE\<close>) sends exactly one
  message. Its topic is the writer's, it has as many features as the header has names,
  and feature \<open>i\<close> has the name \<open>header[i]\<close> and a list of doubles that holds
  \<open>values[i]\<close> and nothing else. With an empty header the call throws a
  \<open>runtime_error\<close> instead and nothing is sent.
\<close>

theorem value_vector_arity:
  fixes w :: "'d socket_writer"
  shows
    "(message_prefix w = ''diagnostic_writer:'' \<and> diagnostic_fields w \<noteq> []
        \<and> length state = length (diagnostic_fields w) \<longrightarrow>
      (\<exists>msg. op_state state w = (Inr (), w\<lparr>socket := socket w @ [msg]\<rparr>)
         \<and> topic msg = DIAGNOSTIC
         \<and> length (feature msg) = length (diagnostic_fields w)
         \<and> (\<forall>i < length (diagnostic_fields w).
              feature msg ! i =
                \<lparr>name = Some (diagnostic_fields w ! i), kind = double_list [state ! i]\<rparr>)))
   \<and> (message_prefix w = ''sample_writer:'' \<and> sample_fields w \<noteq> []
        \<and> length state = length (sample_fields w)
        \<and> processing_adaptation_state w \<noteq> PROCESSING_ADAPTATION
        \<and> processing_adaptation_state w \<noteq> FINAL_ADAPTATION_MESSAGE \<longrightarrow>
      (\<exists>msg. op_state state w = (Inr (), w\<lparr>socket := socket w @ [msg]\<rparr>)
         \<and> topic msg = SAMPLE
         \<and> length (feature msg) = length (sample_fields w)
         \<and> (\<forall>i < length (sample_fields w).
              feature msg ! i =
                \<lparr>name = Some (sample_fields w ! i), kind = double_list [state ! i]\<rparr>)))
   \<and> (message_prefix w = ''diagnostic_writer:'' \<and> diagnostic_fields w = [] \<longrightarrow>
      (\<exists>text. op_state state w = (Inl (runtime_error text), w)))
   \<and> (message_prefix w = ''sample_writer:'' \<and> sample_fields w = [] \<longrightarrow>
      (\<exists>text. op_state state w = (Inl (runtime_error text), w)))"
proof (intro conjI impI)
  assume a: "message_prefix w = ''diagnostic_writer:'' \<and> diagnostic_fields w \<noteq> []
        \<and> length state = length (diagnostic_fields w)"
  let ?msg = "named_features (diagnostic_fields w) state 0 (new_message DIAGNOSTIC)"
  from a show "\<exists>msg. op_state state w = (Inr (), w\<lparr>socket := socket w @ [msg]\<rparr>)
         \<and> topic msg = DIAGNOSTIC
         \<and> length (feature msg) = length (diagnostic_fields w)
         \<and> (\<forall>i < length (diagnostic_fields w).
              feature msg ! i =
                \<lparr>name = Some (diagnostic_fields w ! i), kind = double_list [state ! i]\<rparr>)"
    by (intro exI [of _ ?msg]) (simp add: op_state_diagnostic named_features_message)
next
  assume a: "message_prefix w = ''sample_writer:'' \<and> sample_fields w \<noteq> []
        \<and> length state = length (sample_fields w)
        \<and> processing_adaptation_state w \<noteq> PROCESSING_ADAPTATION
        \<and> processing_adaptation_state w \<noteq> FINAL_ADAPTATION_MESSAGE"
  let ?msg = "named_features (sample_fields w) state 0 (new_message SAMPLE)"
  from a show "\<exists>msg. op_state state w = (Inr (), w\<lparr>socket := socket w @ [msg]\<rparr>)
         \<and> topic msg = SAMPLE
         \<and> length (feature msg) = length (sample_fields w)
         \<and> (\<forall>i < length (sample_fields w).
              feature msg ! i =
                \<lparr>name = Some (sample_fields w ! i), kind = double_list [state ! i]\<rparr>)"
    by (intro exI [of _ ?msg]) (simp add: op_state_sample named_features_message)
next
  assume "message_prefix w = ''diagnostic_writer:'' \<and> diagnostic_fields w = []"
  then show "\<exists>text. op_state state w = (Inl (runtime_error text), w)"
    by (simp add: op_state_diagnostic)
next
  assume "message_prefix w = ''sample_writer:'' \<and> sample_fields w = []"
  then show "\<exists>text. op_state state w = (Inl (runtime_error text), w)"
    by (simp add: op_state_sample)
qed

text \<open>
  The theorem at a diagnostic and a sample writer with a header of two names, and at new
  writers, whose headers are empty.
\<close>

theorem value_vector_arity_witness:
  "length [1.5, 2.5 :: real] = length [''a'', ''b'']
   \<and> length [1, 2 :: real] = length [''lp__'', ''y'']
   \<and> diagnostic_fields (socket_writer_new ''diagnostic_writer:'' :: real socket_writer) = []
   \<and> sample_fields (socket_writer_new ''sample_writer:'' :: real socket_writer) = []
   \<and> op_state [1.5, 2.5 :: real]
     \<lparr>socket = [], message_prefix = ''diagnostic_writer:'', diagnostic_fields = [''a'', ''b''],
      sample_fields = [], processing_adaptation_state = BEFORE_PROCESSING_ADAPTATION\<rparr> =
    (Inr (),
     \<lparr>socket = [\<lparr>topic = DIAGNOSTIC,
        feature = [\<lparr>name = Some ''a'', kind = double_list [1.5]\<rparr>,
                   \<lparr>name = Some ''b'', kind = double_list [2.5]\<rparr>]\<rparr>],
      message_prefix = ''diagnostic_writer:'', diagnostic_fields = [''a'', ''b''],
      sample_fields = [], processing_adaptation_state = BEFORE_PROCESSING_ADAPTATION\<rparr>)
   \<and> op_state [1, 2 :: real]
     \<lparr>socket = [], message_prefix = ''sample_writer:'', diagnostic_fields = [],
      sample_fields = [''lp__'', ''y''],
      processing_adaptation_state = AFTER_PROCESSING_ADAPTATION\<rparr> =
    (Inr (),
     \<lparr>socket = [\<lparr>topic = SAMPLE,
        feature = [\<lparr>name = Some ''lp__'', kind = double_list [1]\<rparr>,
                   \<lparr>name = Some ''y'', kind = double_list [2]\<rparr>]\<rparr>],
      message_prefix = ''sample_writer:'', diagnostic_fields = [],
      sample_fields = [''lp__'', ''y''],
      processing_adaptation_state = AFTER_PROCESSING_ADAPTATION\<rparr>)
   \<and> op_state [1.5, 2.5 :: real] (socket_writer_new ''diagnostic_writer:'') =
    (Inl (runtime_error ''diagnostic fields must be set before receiving values''),
     socket_writer_new ''diagnostic_writer:'')
   \<and> op_state [1, 2 :: real] (socket_writer_new ''sample_writer:'') =
    (Inl (runtime_error
       ''Sample fields should be populated before sample writer writes a vector of doubles.''),
     socket_writer_new ''sample_writer:'')"
  using
    value_vector_arity
      [of "\<lparr>socket = [], message_prefix = ''diagnostic_writer:'',
           diagnostic_fields = [''a'', ''b''], sample_fields = [],
           processing_adaptation_state = BEFORE_PROCESSING_ADAPTATION\<rparr>" "[1.5, 2.5 :: real]"]
    value_vector_arity
      [of "\<lparr>socket = [], message_prefix = ''sample_writer:'', diagnostic_fields = [],
           sample_fields = [''lp__'', ''y''],
           processing_adaptation_state = AFTER_PROCESSING_ADAPTATION\<rparr>" "[1, 2 :: real]"]
    value_vector_arity [of "socket_writer_new ''diagnostic_writer:''" "[1.5, 2.5 :: real]"]
    value_vector_arity [of "socket_writer_new ''sample_writer:''" "[1, 2 :: real]"]
  by (simp add: socket_writer_new_def op_state_diagnostic op_state_sample
      named_features_message)



text \<open>
  C6. The init writer answers every vector of doubles with exactly one message: its topic
  is \<open>INITIALIZATION\<close>, and it has exactly one feature, which has no name and whose
  list of doubles holds all the values in the order they came in.
\<close>

theorem init_value_vector:
  assumes "message_prefix w = ''init_writer:''"
  shows "op_state state w =
     (Inr (), w\<lparr>socket := socket w @
        [\<lparr>topic = INITIALIZATION, feature = [\<lparr>name = None, kind = double_list state\<rparr>]\<rparr>]\<rparr>)"
  using assms by (rule op_state_init)

text \<open>The theorem at the vector \<open>[0.1, -0.2, 3.0]\<close> on a new init writer.\<close>

theorem init_value_vector_witness:
  "message_prefix (socket_writer_new ''init_writer:'' :: real socket_writer) = ''init_writer:''
   \<and> op_state [0.1, - 0.2, 3.0] (socket_writer_new ''init_writer:'' :: real socket_writer) =
     (Inr (),
      \<lparr>socket = [\<lparr>topic = INITIALIZATION,
          feature = [\<lparr>name = None, kind = double_list [0.1, - 0.2, 3.0]\<rparr>]\<rparr>],
       message_prefix = ''init_writer:'', diagnostic_fields = [], sample_fields = [],
       processing_adaptation_state = BEFORE_PROCESSING_ADAPTATION\<rparr>)"
  using init_value_vector
    [of "socket_writer_new ''init_writer:'' :: real socket_writer" "[0.1, - 0.2, 3.0]"]
  by (simp add: socket_writer_new_def)

subsection \<open>Vectors of names\<close>

text \<open>
  C4, as the specification has it, says that on a sample writer the first vector of
  names becomes the header and any second one throws. The writer tells whether it has
  its header by looking whether the header is empty: after a first vector with no names
  in it, the second vector of names is taken as the header and nothing is thrown.
\<close>

theorem sample_second_header_counterexample:
  "op_names [''lp__'', ''y'']
     (snd (op_names [] (socket_writer_new ''sample_writer:'' :: real socket_writer))) =
   (Inr (),
    \<lparr>socket = [], message_prefix = ''sample_writer:'', diagnostic_fields = [],
     sample_fields = [''lp__'', ''y''],
     processing_adaptation_state = BEFORE_PROCESSING_ADAPTATION\<rparr>)"
  by (simp add: op_names_sample socket_writer_new_def)

text \<open>
  C4, amended. On a sample writer the first vector of names (whatever text lines, vectors
  of doubles or empty calls came before it) becomes the header and nothing goes to the
  socket. If it has at least one name, then after any further events the header is still
  the same and a vector of names throws the \<open>runtime_error\<close> of line 148, the writer
  being left as it was.
\<close>

theorem sample_header_set_once:
  fixes w1 w2 :: "'d socket_writer"
  assumes "run pre (socket_writer_new ''sample_writer:'') = (Inr (), w1)"
    and "\<forall>e \<in> set pre. \<not> is_name_vector e"
  shows "op_names names w1 = (Inr (), w1\<lparr>sample_fields := names\<rparr>)
     \<and> (names \<noteq> [] \<and> run post (w1\<lparr>sample_fields := names\<rparr>) = (r, w2) \<longrightarrow>
          sample_fields w2 = names
          \<and> op_names names' w2 =
              (Inl (runtime_error
                 ''Unexpected string vector in sample writer after column header.''), w2))"
proof (intro conjI impI)
  have p1: "message_prefix w1 = ''sample_writer:''" and f1: "sample_fields w1 = []"
    using run_new_no_names [OF assms] by simp_all
  then show "op_names names w1 = (Inr (), w1\<lparr>sample_fields := names\<rparr>)"
    by (simp add: op_names_sample)
  assume "names \<noteq> [] \<and> run post (w1\<lparr>sample_fields := names\<rparr>) = (r, w2)"
  then have ne: "names \<noteq> []" and rp: "run post (w1\<lparr>sample_fields := names\<rparr>) = (r, w2)"
    by simp_all
  from run_prefix [OF rp] p1 have p2: "message_prefix w2 = ''sample_writer:''"
    by simp
  from ne have "sample_fields (w1\<lparr>sample_fields := names\<rparr>) \<noteq> []"
    by simp
  from run_sample_fields_kept [OF this rp] show f2: "sample_fields w2 = names"
    by simp
  from ne p2 f2 show "op_names names' w2 =
      (Inl (runtime_error
         ''Unexpected string vector in sample writer after column header.''), w2)"
    by (simp add: op_names_sample)
qed

text \<open>
  The theorem at the header \<open>lp__, y\<close>, a line of the adaptation after it, and a
  second vector of names.
\<close>

theorem sample_header_set_once_witness:
  "run [empty_signal] (socket_writer_new ''sample_writer:'' :: real socket_writer) =
     (Inr (), socket_writer_new ''sample_writer:'')
   \<and> \<not> is_name_vector (empty_signal :: real event)
   \<and> [''lp__'', ''y''] \<noteq> []
   \<and> run [text_line ''Adaptation terminated'']
        ((socket_writer_new ''sample_writer:'' :: real socket_writer)
           \<lparr>sample_fields := [''lp__'', ''y'']\<rparr>) =
      (Inr (),
       \<lparr>socket = [\<lparr>topic = SAMPLE,
           feature = [\<lparr>name = None, kind = bytes_list [''Adaptation terminated'']\<rparr>]\<rparr>],
        message_prefix = ''sample_writer:'', diagnostic_fields = [],
        sample_fields = [''lp__'', ''y''],
        processing_adaptation_state = PROCESSING_ADAPTATION\<rparr>)
   \<and> op_names [''lp__'', ''y''] (socket_writer_new ''sample_writer:'' :: real socket_writer) =
      (Inr (), (socket_writer_new ''sample_writer:'')\<lparr>sample_fields := [''lp__'', ''y'']\<rparr>)
   \<and> op_names [''z'']
        \<lparr>socket = [\<lparr>topic = SAMPLE,
           feature = [\<lparr>name = None, kind = bytes_list [''Adaptation terminated'']\<rparr>]\<rparr>],
        message_prefix = ''sample_writer:'', diagnostic_fields = [],
        sample_fields = [''lp__'', ''y''],
        processing_adaptation_state = PROCESSING_ADAPTATION :: ProcessingAdaptationState\<rparr> =
      (Inl (runtime_error ''Unexpected string vector in sample writer after column header.''),
       \<lparr>socket = [\<lparr>topic = SAMPLE,
           feature = [\<lparr>name = None, kind = bytes_list [''Adaptation terminated'']\<rparr>]\<rparr>],
        message_prefix = ''sample_writer:'', diagnostic_fields = [],
        sample_fields = [''lp__'', ''y''],
        processing_adaptation_state = PROCESSING_ADAPTATION\<rparr> :: real socket_writer)"
proof -
  have pre: "run [empty_signal] (socket_writer_new ''sample_writer:'' :: real socket_writer) =
     (Inr (), socket_writer_new ''sample_writer:'')"
    by (simp add: op_empty_def)
  have nn: "\<forall>e \<in> set [empty_signal :: real event]. \<not> is_name_vector e"
    by simp
  have post: "run [text_line ''Adaptation terminated'']
        ((socket_writer_new ''sample_writer:'' :: real socket_writer)
           \<lparr>sample_fields := [''lp__'', ''y'']\<rparr>) =
      (Inr (),
       \<lparr>socket = [\<lparr>topic = SAMPLE,
           feature = [\<lparr>name = None, kind = bytes_list [''Adaptation terminated'']\<rparr>]\<rparr>],
        message_prefix = ''sample_writer:'', diagnostic_fields = [],
        sample_fields = [''lp__'', ''y''],
        processing_adaptation_state = PROCESSING_ADAPTATION\<rparr>)"
    by (simp add: op_message_sample socket_writer_new_def)
  show ?thesis
    using sample_header_set_once [OF pre nn, of "[''lp__'', ''y'']"
        "[text_line ''Adaptation terminated'']" "Inr ()"
        "\<lparr>socket = [\<lparr>topic = SAMPLE,
           feature = [\<lparr>name = None, kind = bytes_list [''Adaptation terminated'']\<rparr>]\<rparr>],
        message_prefix = ''sample_writer:'', diagnostic_fields = [],
        sample_fields = [''lp__'', ''y''],
        processing_adaptation_state = PROCESSING_ADAPTATION\<rparr>" "[''z'']"] pre post
    by simp
qed

text \<open>
  C5, as the specification has it, says that on a diagnostic writer the first vector of
  names becomes the header and every later one is sent as data. After a first vector with
  no names in it the header is still empty, and the next vector of names is taken as the
  header: no message is sent for it.
\<close>

theorem diagnostic_second_names_counterexample:
  "op_names [''c'', ''d'']
     (snd (op_names [] (socket_writer_new ''diagnostic_writer:'' :: real socket_writer))) =
   (Inr (),
    \<lparr>socket = [], message_prefix = ''diagnostic_writer:'', diagnostic_fields = [''c'', ''d''],
     sample_fields = [],
     processing_adaptation_state = BEFORE_PROCESSING_ADAPTATION\<rparr>)"
  by (simp add: op_names_diagnostic socket_writer_new_def)

text \<open>
  C5, amended. On a diagnostic writer the first vector of names becomes the header and
  nothing is sent. If it has at least one name, then after any further events the header
  is still the same, and a vector of names sends exactly one message: its topic is
  \<open>DIAGNOSTIC\<close>, it has one feature, without a name, whose list of byte strings holds
  the names in their order, one element each; the header is not touched.
\<close>

theorem diagnostic_header_then_data:
  fixes w1 w2 :: "'d socket_writer"
  assumes "run pre (socket_writer_new ''diagnostic_writer:'') = (Inr (), w1)"
    and "\<forall>e \<in> set pre. \<not> is_name_vector e"
  shows "op_names names w1 = (Inr (), w1\<lparr>diagnostic_fields := names\<rparr>)
     \<and> (names \<noteq> [] \<and> run post (w1\<lparr>diagnostic_fields := names\<rparr>) = (r, w2) \<longrightarrow>
          diagnostic_fields w2 = names
          \<and> op_names names' w2 =
              (Inr (), w2\<lparr>socket := socket w2 @
                 [\<lparr>topic = DIAGNOSTIC,
                   feature = [\<lparr>name = None, kind = bytes_list names'\<rparr>]\<rparr>]\<rparr>))"
proof (intro conjI impI)
  have p1: "message_prefix w1 = ''diagnostic_writer:''" and f1: "diagnostic_fields w1 = []"
    using run_new_no_names [OF assms] by simp_all
  then show "op_names names w1 = (Inr (), w1\<lparr>diagnostic_fields := names\<rparr>)"
    by (simp add: op_names_diagnostic)
  assume "names \<noteq> [] \<and> run post (w1\<lparr>diagnostic_fields := names\<rparr>) = (r, w2)"
  then have ne: "names \<noteq> []"
    and rp: "run post (w1\<lparr>diagnostic_fields := names\<rparr>) = (r, w2)"
    by simp_all
  from run_prefix [OF rp] p1 have p2: "message_prefix w2 = ''diagnostic_writer:''"
    by simp
  from ne have "diagnostic_fields (w1\<lparr>diagnostic_fields := names\<rparr>) \<noteq> []"
    by simp
  from run_diagnostic_fields_kept [OF this rp] show f2: "diagnostic_fields w2 = names"
    by simp
  from ne p2 f2 show "op_names names' w2 =
      (Inr (), w2\<lparr>socket := socket w2 @
         [\<lparr>topic = DIAGNOSTIC, feature = [\<lparr>name = None, kind = bytes_list names'\<rparr>]\<rparr>]\<rparr>)"
    by (simp add: op_names_diagnostic)
qed

text \<open>
  The theorem at the header \<open>a, b\<close>, a vector of doubles after it, and the names
  \<open>c, d\<close>.
\<close>

theorem diagnostic_header_then_data_witness:
  "run [empty_signal] (socket_writer_new ''diagnostic_writer:'' :: real socket_writer) =
     (Inr (), socket_writer_new ''diagnostic_writer:'')
   \<and> \<not> is_name_vector (empty_signal :: real event)
   \<and> [''a'', ''b''] \<noteq> []
   \<and> run [value_vector [1.5, 2.5]]
        ((socket_writer_new ''diagnostic_writer:'' :: real socket_writer)
           \<lparr>diagnostic_fields := [''a'', ''b'']\<rparr>) =
      (Inr (),
       \<lparr>socket = [\<lparr>topic = DIAGNOSTIC,
           feature = [\<lparr>name = Some ''a'', kind = double_list [1.5]\<rparr>,
                      \<lparr>name = Some ''b'', kind = double_list [2.5]\<rparr>]\<rparr>],
        message_prefix = ''diagnostic_writer:'', diagnostic_fields = [''a'', ''b''],
        sample_fields = [],
        processing_adaptation_state = BEFORE_PROCESSING_ADAPTATION\<rparr>)
   \<and> op_names [''a'', ''b''] (socket_writer_new ''diagnostic_writer:'' :: real socket_writer) =
      (Inr (), (socket_writer_new ''diagnostic_writer:'')\<lparr>diagnostic_fields := [''a'', ''b'']\<rparr>)
   \<and> op_names [''c'', ''d'']
        \<lparr>socket = [\<lparr>topic = DIAGNOSTIC,
           feature = [\<lparr>name = Some ''a'', kind = double_list [1.5 :: real]\<rparr>,
                      \<lparr>name = Some ''b'', kind = double_list [2.5]\<rparr>]\<rparr>],
        message_prefix = ''diagnostic_writer:'', diagnostic_fields = [''a'', ''b''],
        sample_fields = [],
        processing_adaptation_state = BEFORE_PROCESSING_ADAPTATION\<rparr> =
      (Inr (),
       \<lparr>socket = [\<lparr>topic = DIAGNOSTIC,
           feature = [\<lparr>name = Some ''a'', kind = double_list [1.5]\<rparr>,
                      \<lparr>name = Some ''b'', kind = double_list [2.5]\<rparr>]\<rparr>,
          \<lparr>topic = DIAGNOSTIC,
           feature = [\<lparr>name = None, kind = bytes_list [''c'', ''d'']\<rparr>]\<rparr>],
        message_prefix = ''diagnostic_writer:'', diagnostic_fields = [''a'', ''b''],
        sample_fields = [],
        processing_adaptation_state = BEFORE_PROCESSING_ADAPTATION\<rparr>)"
proof -
  have pre: "run [empty_signal] (socket_writer_new ''diagnostic_writer:'' :: real socket_writer) =
     (Inr (), socket_writer_new ''diagnostic_writer:'')"
    by (simp add: op_empty_def)
  have nn: "\<forall>e \<in> set [empty_signal :: real event]. \<not> is_name_vector e"
    by simp
  have post: "run [value_vector [1.5, 2.5]]
        ((socket_writer_new ''diagnostic_writer:'' :: real socket_writer)
           \<lparr>diagnostic_fields := [''a'', ''b'']\<rparr>) =
      (Inr (),
       \<lparr>socket = [\<lparr>topic = DIAGNOSTIC,
           feature = [\<lparr>name = Some ''a'', kind = double_list [1.5]\<rparr>,
                      \<lparr>name = Some ''b'', kind = double_list [2.5]\<rparr>]\<rparr>],
        message_prefix = ''diagnostic_writer:'', diagnostic_fields = [''a'', ''b''],
        sample_fields = [],
        processing_adaptation_state = BEFORE_PROCESSING_ADAPTATION\<rparr>)"
    by (simp add: op_state_diagnostic named_features_message socket_writer_new_def)
  show ?thesis
    using diagnostic_header_then_data [OF pre nn, of "[''a'', ''b'']"
        "[value_vector [1.5, 2.5]]" "Inr ()"
        "\<lparr>socket = [\<lparr>topic = DIAGNOSTIC,
           feature = [\<lparr>name = Some ''a'', kind = double_list [1.5]\<rparr>,
                      \<lparr>name = Some ''b'', kind = double_list [2.5]\<rparr>]\<rparr>],
        message_prefix = ''diagnostic_writer:'', diagnostic_fields = [''a'', ''b''],
        sample_fields = [],
        processing_adaptation_state = BEFORE_PROCESSING_ADAPTATION\<rparr>" "[''c'', ''d'']"] pre post
    by simp
qed

text \<open>
  C10. Whether the header has been set is decided by its being empty, not by a flag. If
  the first vector of names on a sample or a diagnostic writer has no names, the call
  returns and the writer is as before, its header empty. A later vector of names (with
  no other vector of names in between) is then taken as the header, and nothing is sent:
  on the sample writer it does not throw, on the diagnostic writer it is not sent as
  data.
\<close>

theorem header_set_detected_by_emptiness:
  fixes w1 w2 :: "'d socket_writer"
  assumes "run pre (socket_writer_new p) = (Inr (), w1)"
    and "\<forall>e \<in> set pre. \<not> is_name_vector e"
    and "run mid w1 = (Inr (), w2)"
    and "\<forall>e \<in> set mid. \<not> is_name_vector e"
  shows "(p = ''sample_writer:'' \<longrightarrow>
            op_names [] w1 = (Inr (), w1)
          \<and> op_names names w2 = (Inr (), w2\<lparr>sample_fields := names\<rparr>))
       \<and> (p = ''diagnostic_writer:'' \<longrightarrow>
            op_names [] w1 = (Inr (), w1)
          \<and> op_names names w2 = (Inr (), w2\<lparr>diagnostic_fields := names\<rparr>))"
proof -
  have w1: "message_prefix w1 = p" "diagnostic_fields w1 = []" "sample_fields w1 = []"
    using run_new_no_names [OF assms(1,2)] by simp_all
  have w2: "message_prefix w2 = p" "diagnostic_fields w2 = []" "sample_fields w2 = []"
    using run_prefix [OF assms(3)] run_fields_no_names [OF assms(4) assms(3)] w1 by simp_all
  have e1: "w1\<lparr>sample_fields := []\<rparr> = w1" and e2: "w1\<lparr>diagnostic_fields := []\<rparr> = w1"
    using w1 by simp_all
  show ?thesis
    using w1 w2 e1 e2 by (simp add: op_names_sample op_names_diagnostic)
qed

text \<open>
  The theorem at new writers of both kinds, with an empty call before the first vector
  of names and one between the two.
\<close>

theorem header_set_detected_by_emptiness_witness:
  "run [empty_signal] (socket_writer_new ''sample_writer:'' :: real socket_writer) =
     (Inr (), socket_writer_new ''sample_writer:'')
   \<and> run [empty_signal] (socket_writer_new ''diagnostic_writer:'' :: real socket_writer) =
     (Inr (), socket_writer_new ''diagnostic_writer:'')
   \<and> \<not> is_name_vector (empty_signal :: real event)
   \<and> op_names [] (socket_writer_new ''sample_writer:'' :: real socket_writer) =
     (Inr (), socket_writer_new ''sample_writer:'')
   \<and> op_names [''lp__'', ''y''] (socket_writer_new ''sample_writer:'' :: real socket_writer) =
     (Inr (), (socket_writer_new ''sample_writer:'')\<lparr>sample_fields := [''lp__'', ''y'']\<rparr>)
   \<and> op_names [] (socket_writer_new ''diagnostic_writer:'' :: real socket_writer) =
     (Inr (), socket_writer_new ''diagnostic_writer:'')
   \<and> op_names [''c'', ''d''] (socket_writer_new ''diagnostic_writer:'' :: real socket_writer) =
     (Inr (), (socket_writer_new ''diagnostic_writer:'')\<lparr>diagnostic_fields := [''c'', ''d'']\<rparr>)"
proof -
  have mid: "run [empty_signal] (socket_writer_new p :: real socket_writer) =
     (Inr (), socket_writer_new p)" for p
    by (simp add: op_empty_def)
  have nm: "\<forall>e \<in> set [empty_signal :: real event]. \<not> is_name_vector e"
    by simp
  show ?thesis
    using header_set_detected_by_emptiness [OF mid nm mid nm, of "''sample_writer:''"
        "[''lp__'', ''y'']"]
      header_set_detected_by_emptiness [OF mid nm mid nm, of "''diagnostic_writer:''"
        "[''c'', ''d'']"] mid
    by simp
qed

subsection \<open>Events that no branch handles\<close>

text \<open>
  C7, as the specification has it, says that the init writer rejects vectors of names,
  text lines and the empty call with an error. The empty call returns without one.
\<close>

theorem init_empty_signal_counterexample:
  "op_empty (socket_writer_new ''init_writer:'' :: real socket_writer) =
     (Inr (), socket_writer_new ''init_writer:'')"
  by (simp add: op_empty_def)

text \<open>
  C7, amended. The init writer throws a \<open>runtime_error\<close> on a vector of names and on
  a text line, and nothing goes to the socket: the writer is as before. The empty call
  returns normally, and it too leaves the writer, socket included, as it was.
\<close>

theorem init_rejects_names_and_text:
  assumes "message_prefix w = ''init_writer:''"
  shows "op_names names w =
           (Inl (runtime_error ''Unexpected string vector for init writer.''), w)
       \<and> op_message m w =
           (Inl (runtime_error ''Unexpected string vector for init writer.''), w)
       \<and> op_empty w = (Inr (), w)"
  using assms by (simp add: op_names_init op_message_init op_empty_def)

text \<open>
  The theorem at a new init writer.
\<close>

theorem init_rejects_names_and_text_witness:
  "message_prefix (socket_writer_new ''init_writer:'' :: real socket_writer) = ''init_writer:''
   \<and> op_names [''a''] (socket_writer_new ''init_writer:'' :: real socket_writer) =
       (Inl (runtime_error ''Unexpected string vector for init writer.''),
        socket_writer_new ''init_writer:'')
   \<and> op_message ''hello'' (socket_writer_new ''init_writer:'' :: real socket_writer) =
       (Inl (runtime_error ''Unexpected string vector for init writer.''),
        socket_writer_new ''init_writer:'')
   \<and> socket (snd (op_empty (socket_writer_new ''init_writer:'' :: real socket_writer))) = []"
  using init_rejects_names_and_text
    [of "socket_writer_new ''init_writer:'' :: real socket_writer" "[''a'']" "''hello''"]
  by (simp add: socket_writer_new_def)

text \<open>
  C8, as the specification has it, says that an event which no handler takes is reported
  as an error, and that on a writer whose prefix is none of the three known ones an event
  does not return silently. The constructor's default prefix is the empty string; a
  writer built with it returns from a vector of names with no message and no error.
\<close>

theorem unknown_prefix_counterexample:
  "op_names [''a''] (socket_writer_new [] :: real socket_writer) =
     (Inr (), socket_writer_new [])
   \<and> socket (socket_writer_new [] :: real socket_writer) = []"
  by (simp add: op_names_other socket_writer_new_def)

text \<open>
  C8, amended. On a writer whose prefix is none of the three known ones every event,
  and on every writer the empty call, returns normally: no message, no error, the writer
  unchanged. On a writer with one of the three prefixes a vector of names, a text line,
  or a vector of doubles that has at least as many values as the writer's header has
  names, ends in an error with the writer unchanged, or sends exactly one message, or is
  a vector of names that becomes the header of a diagnostic or sample writer whose header
  was empty. Nothing is said about a vector of doubles shorter than the header, on which
  the writer reads beyond the end of the vector.
\<close>

theorem events_handled_or_silently_returned:
  fixes w :: "'d socket_writer"
  shows
    "((message_prefix w \<noteq> ''diagnostic_writer:'' \<and> message_prefix w \<noteq> ''init_writer:''
         \<and> message_prefix w \<noteq> ''sample_writer:'') \<or> e = empty_signal \<longrightarrow>
       dispatch e w = (Inr (), w))
   \<and> ((message_prefix w = ''diagnostic_writer:'' \<or> message_prefix w = ''init_writer:''
         \<or> message_prefix w = ''sample_writer:'') \<and> e \<noteq> empty_signal
       \<and> (\<forall>state. e = value_vector state \<longrightarrow>
             (message_prefix w = ''diagnostic_writer:'' \<longrightarrow>
                length (diagnostic_fields w) \<le> length state)
           \<and> (message_prefix w = ''sample_writer:'' \<longrightarrow>
                length (sample_fields w) \<le> length state)) \<longrightarrow>
       (\<exists>err. dispatch e w = (Inl err, w))
     \<or> (\<exists>msg. fst (dispatch e w) = Inr ()
           \<and> socket (snd (dispatch e w)) = socket w @ [msg])
     \<or> (\<exists>names. e = name_vector names \<and> message_prefix w = ''diagnostic_writer:''
           \<and> diagnostic_fields w = []
           \<and> dispatch e w = (Inr (), w\<lparr>diagnostic_fields := names\<rparr>))
     \<or> (\<exists>names. e = name_vector names \<and> message_prefix w = ''sample_writer:''
           \<and> sample_fields w = []
           \<and> dispatch e w = (Inr (), w\<lparr>sample_fields := names\<rparr>)))"
proof (intro conjI impI)
  assume "(message_prefix w \<noteq> ''diagnostic_writer:'' \<and> message_prefix w \<noteq> ''init_writer:''
         \<and> message_prefix w \<noteq> ''sample_writer:'') \<or> e = empty_signal"
  then show "dispatch e w = (Inr (), w)"
    by (cases e) (auto simp: op_names_other op_state_other op_message_other op_empty_def)
next
  assume a: "(message_prefix w = ''diagnostic_writer:'' \<or> message_prefix w = ''init_writer:''
         \<or> message_prefix w = ''sample_writer:'') \<and> e \<noteq> empty_signal
       \<and> (\<forall>state. e = value_vector state \<longrightarrow>
             (message_prefix w = ''diagnostic_writer:'' \<longrightarrow>
                length (diagnostic_fields w) \<le> length state)
           \<and> (message_prefix w = ''sample_writer:'' \<longrightarrow>
                length (sample_fields w) \<le> length state))"
  then have role: "message_prefix w = ''diagnostic_writer:'' \<or> message_prefix w = ''init_writer:''
         \<or> message_prefix w = ''sample_writer:''"
    by simp
  show "(\<exists>err. dispatch e w = (Inl err, w))
     \<or> (\<exists>msg. fst (dispatch e w) = Inr ()
           \<and> socket (snd (dispatch e w)) = socket w @ [msg])
     \<or> (\<exists>names. e = name_vector names \<and> message_prefix w = ''diagnostic_writer:''
           \<and> diagnostic_fields w = []
           \<and> dispatch e w = (Inr (), w\<lparr>diagnostic_fields := names\<rparr>))
     \<or> (\<exists>names. e = name_vector names \<and> message_prefix w = ''sample_writer:''
           \<and> sample_fields w = []
           \<and> dispatch e w = (Inr (), w\<lparr>sample_fields := names\<rparr>))"
  proof (cases e)
    case (name_vector names)
    from op_names_handled [OF role, of names] show ?thesis
      unfolding name_vector dispatch.simps by (elim disjE exE conjE) simp_all
  next
    case (value_vector state)
    from op_state_handled [OF role, of state] show ?thesis
      unfolding value_vector dispatch.simps by (elim disjE exE conjE) simp_all
  next
    case (text_line m)
    from op_message_handled [OF role, of m] show ?thesis
      unfolding text_line dispatch.simps by (elim disjE exE conjE) simp_all
  next
    case empty_signal
    with a show ?thesis by simp
  qed
qed

text \<open>
  The theorem at writers with an unknown prefix, at the empty call on a sample writer,
  at a text line on the init writer, and at a vector of two doubles on a diagnostic
  writer with a header of two names.
\<close>

theorem events_handled_or_silently_returned_witness:
  "dispatch (name_vector [''a'']) (socket_writer_new [] :: real socket_writer) =
     (Inr (), socket_writer_new [])
   \<and> dispatch (value_vector [1]) (socket_writer_new ''writer'' :: real socket_writer) =
     (Inr (), socket_writer_new ''writer'')
   \<and> dispatch empty_signal (socket_writer_new ''sample_writer:'' :: real socket_writer) =
     (Inr (), socket_writer_new ''sample_writer:'')
   \<and> dispatch (text_line ''hello'') (socket_writer_new ''init_writer:'' :: real socket_writer) =
     (Inl (runtime_error ''Unexpected string vector for init writer.''),
      socket_writer_new ''init_writer:'')
   \<and> text_line ''hello'' \<noteq> (empty_signal :: real event)
   \<and> length [''a'', ''b''] \<le> length [1.5, 2.5 :: real]
   \<and> dispatch (value_vector [1.5, 2.5 :: real])
       \<lparr>socket = [], message_prefix = ''diagnostic_writer:'',
        diagnostic_fields = [''a'', ''b''], sample_fields = [],
        processing_adaptation_state = BEFORE_PROCESSING_ADAPTATION\<rparr> =
     (Inr (),
      \<lparr>socket = [\<lparr>topic = DIAGNOSTIC,
         feature = [\<lparr>name = Some ''a'', kind = double_list [1.5]\<rparr>,
                    \<lparr>name = Some ''b'', kind = double_list [2.5]\<rparr>]\<rparr>],
       message_prefix = ''diagnostic_writer:'', diagnostic_fields = [''a'', ''b''],
       sample_fields = [], processing_adaptation_state = BEFORE_PROCESSING_ADAPTATION\<rparr>)"
  using
    events_handled_or_silently_returned
      [of "socket_writer_new [] :: real socket_writer" "name_vector [''a'']"]
    events_handled_or_silently_returned
      [of "socket_writer_new ''writer'' :: real socket_writer" "value_vector [1]"]
    events_handled_or_silently_returned
      [of "socket_writer_new ''sample_writer:'' :: real socket_writer" empty_signal]
    events_handled_or_silently_returned
      [of "socket_writer_new ''init_writer:'' :: real socket_writer" "text_line ''hello''"]
    events_handled_or_silently_returned
      [of "\<lparr>socket = [], message_prefix = ''diagnostic_writer:'',
           diagnostic_fields = [''a'', ''b''], sample_fields = [],
           processing_adaptation_state = BEFORE_PROCESSING_ADAPTATION\<rparr>"
          "value_vector [1.5, 2.5 :: real]"]
  by (simp add: socket_writer_new_def op_message_init op_state_diagnostic
      named_features_message)

end
